theory Spec2Isabelle
  imports Main
begin

section \<open>Errors, observable events and effectful computations\<close>

text \<open>
  Every exception the TypeScript can raise is a value. \<open>TypeError\<close> is the
  property read on \<open>undefined\<close>, \<open>SyntaxError\<close> the failure of \<open>JSON.parse\<close>,
  \<open>WebhookError\<close> and \<open>FetchError\<close> are the two classes of \<open>./error\<close> thrown by
  \<open>executeWebhook\<close> (the latter carries the response, of which the status is kept),
  and \<open>Rejected\<close> is the rejection of a promise of an external collaborator.
\<close>

datatype error =
    TypeError
  | SyntaxError
  | WebhookError string
  | FetchError nat
  | Rejected string

text \<open>
  The message posted to the chat webhook (\<open>WebhookMessageWithoutAttachmentsBody\<close> and
  \<open>Embed\<close>), with the fields the program sets; an optional field is an \<open>option\<close>.
  \<open>thumbnail\<close> and \<open>image\<close> are objects with the single field \<open>url\<close>, kept as that string.
\<close>

record Embed =
  embed_title :: string
  embed_url :: string
  embed_thumbnail :: string
  embed_description :: string
  embed_image :: "string option"

record WebhookMessage =
  username :: "string option"
  avatar_url :: "string option"
  content :: "string option"
  embeds :: "Embed list option"

record WebhookOptions =
  opt_id :: "string option"
  opt_token :: "string option"
  opt_url :: "string option"

record WebhookData =
  data_id :: string
  data_token :: string

text \<open>The filter object passed to \<open>getStreams\<close>.\<close>

record StreamFilter =
  filter_type :: string
  filter_userIds :: "string list"

record Env =
  TWITCH_CLIENT_ID :: string
  TWITCH_CLIENT_SECRET :: string
  TWITCH_AGE_WARNING :: "string option"
  DISCORD_WEBHOOK_ID :: "string option"
  DISCORD_WEBHOOK_TOKEN :: "string option"
  DISCORD_WEBHOOK_URL :: "string option"
  DISCORD_USERNAME :: "string option"
  DISCORD_AVATAR_URL :: "string option"

text \<open>
  The parsed webhook body (\<open>WebhookBody\<close>), polymorphic over the three message kinds:
  \<open>subscription.type\<close>, \<open>subscription.status\<close>,
  \<open>subscription.condition.broadcaster_user_id\<close> and the \<open>challenge\<close> that only the
  callback verification carries.
\<close>

record WebhookBody =
  subscription_type :: string
  subscription_status :: string
  broadcaster_user_id :: string
  challenge :: "string option"

text \<open>A JavaScript number that is an integer, or \<open>NaN\<close> (\<open>None\<close>).\<close>

type_synonym number = "int option"

text \<open>The promises handed to \<open>ctx.waitUntil\<close>, as data: the call and its arguments.\<close>

datatype task =
    ForwardNotification Env WebhookBody number
  | ForwardRevocation Env WebhookBody

text \<open>
  What the program does to the outside, in the order it does it:
  \<^item> \<open>ReadBody\<close> is \<open>request.blob()\<close>, \<open>VerifyRequest\<close> the call of \<open>verifyRequest\<close>,
    \<open>ParseBody\<close> the call of \<open>JSON.parse\<close>, \<open>CheckBody\<close> the call of
    \<open>isStreamOnlineBody\<close>;
  \<^item> \<open>ConsoleWarn\<close> is the age warning, with the threshold and the raw timestamp it
    prints, and \<open>ConsoleError\<close> is \<open>console.error\<close> with the error it prints;
  \<^item> \<open>WaitUntil\<close> is \<open>ctx.waitUntil\<close> with the promise it is given;
  \<^item> \<open>Authorize\<close> is the call of \<open>authorize\<close> with the client id and secret;
    \<open>GetStreams\<close>, \<open>GetChannels\<close> and \<open>GetUsers\<close> are the lookups, with the client
    id, the token and the filter or the ids;
  \<^item> \<open>HttpPost\<close> is the \<open>fetch\<close> of \<open>executeWebhook\<close>, with the URL and the message.
\<close>

datatype event =
    ReadBody
  | VerifyRequest
  | ConsoleWarn number string
  | ParseBody
  | CheckBody
  | WaitUntil task
  | Authorize string string
  | GetStreams string string StreamFilter
  | GetChannels string string "string list"
  | GetUsers string string "string list"
  | HttpPost string WebhookMessage
  | ConsoleError error

text \<open>
  A computation yields the events it performed and either the error it threw or its
  value. An \<open>await\<close> of a rejected promise throws the rejection.
\<close>

type_synonym 'a io = "event list \<times> (error + 'a)"

definition return_io :: "'a \<Rightarrow> 'a io" where
  "return_io x = ([], Inr x)"

definition throw_io :: "error \<Rightarrow> 'a io" where
  "throw_io e = ([], Inl e)"

definition call_io :: "event \<Rightarrow> error + 'a \<Rightarrow> 'a io" where
  "call_io ev r = ([ev], r)"

definition bind_io :: "'a io \<Rightarrow> ('a \<Rightarrow> 'b io) \<Rightarrow> 'b io" where
  "bind_io m f =
     (case m of
        (es, Inl e) \<Rightarrow> (es, Inl e)
      | (es, Inr x) \<Rightarrow> (case f x of (es', r) \<Rightarrow> (es @ es', r)))"

text \<open>\<open>try { body } catch (err) { console.error(err); }\<close>\<close>

definition try_catch_log :: "unit io \<Rightarrow> unit io" where
  "try_catch_log m =
     (case m of
        (es, Inl e) \<Rightarrow> (es @ [ConsoleError e], Inr ())
      | (es, Inr u) \<Rightarrow> (es, Inr ()))"

section \<open>The webhook URL pattern\<close>

text \<open>
  The fragment of JavaScript regular expressions that \<open>WebhookUrlPattern\<close> uses, with
  the backtracking semantics of \<open>RegExp.prototype.exec\<close> under the \<open>i\<close> flag: a literal
  (compared without regard to ASCII case), a character class repeated greedily between
  two bounds, an optional group, an alternative, a sequence and a named capture group.
\<close>

datatype regex =
    Lit string
  | Rep string nat nat
  | Opt regex
  | Alt regex regex
  | Seq regex regex
  | Grp string regex

definition to_lower :: "char \<Rightarrow> char" where
  "to_lower c =
     (case map_of (zip ''ABCDEFGHIJKLMNOPQRSTUVWXYZ'' ''abcdefghijklmnopqrstuvwxyz'') c of
        None \<Rightarrow> c
      | Some l \<Rightarrow> l)"

fun match_lit :: "string \<Rightarrow> string \<Rightarrow> string option" where
  "match_lit [] s = Some s"
| "match_lit (p # ps) [] = None"
| "match_lit (p # ps) (c # cs) =
     (if to_lower c = to_lower p then match_lit ps cs else None)"

type_synonym captures = "(string \<times> string) list"

text \<open>
  \<open>rmatch r (s, caps)\<close> lists every way \<open>r\<close> matches a prefix of \<open>s\<close>, as the rest of
  the input and the captures, in the order backtracking tries them.
\<close>

fun rmatch :: "regex \<Rightarrow> string \<times> captures \<Rightarrow> (string \<times> captures) list" where
  "rmatch (Lit p) (s, caps) =
     (case match_lit p s of None \<Rightarrow> [] | Some rest \<Rightarrow> [(rest, caps)])"
| "rmatch (Rep cls lo hi) (s, caps) =
     (let run = length (takeWhile (\<lambda>c. c \<in> set cls) s)
      in map (\<lambda>k. (drop k s, caps)) (rev [lo ..< Suc (min hi run)]))"
| "rmatch (Opt r) st = rmatch r st @ [st]"
| "rmatch (Alt r1 r2) st = rmatch r1 st @ rmatch r2 st"
| "rmatch (Seq r1 r2) st = concat (map (rmatch r2) (rmatch r1 st))"
| "rmatch (Grp name r) (s, caps) =
     map (\<lambda>(rest, caps'). (rest, caps' @ [(name, take (length s - length rest) s)]))
       (rmatch r (s, caps))"

text \<open>\<open>exec\<close> without the \<open>g\<close> flag: the first match at the leftmost start.\<close>

fun regex_exec :: "regex \<Rightarrow> string \<Rightarrow> captures option" where
  "regex_exec r [] = (case rmatch r ([], []) of [] \<Rightarrow> None | (rest, caps) # _ \<Rightarrow> Some caps)"
| "regex_exec r (c # cs) =
     (case rmatch r (c # cs, []) of
        [] \<Rightarrow> regex_exec r cs
      | (rest, caps) # _ \<Rightarrow> Some caps)"

text \<open>A pattern without capture groups.\<close>

fun no_groups :: "regex \<Rightarrow> bool" where
  "no_groups (Lit p) = True"
| "no_groups (Rep cls lo hi) = True"
| "no_groups (Opt r) = no_groups r"
| "no_groups (Alt r1 r2) = (no_groups r1 \<and> no_groups r2)"
| "no_groups (Seq r1 r2) = (no_groups r1 \<and> no_groups r2)"
| "no_groups (Grp name r) = False"

definition digit_class :: string where
  "digit_class = ''0123456789''"

definition word_dash_class :: string where
  "word_dash_class =
     ''abcdefghijklmnopqrstuvwxyzABCDEFGHIJKLMNOPQRSTUVWXYZ0123456789_-''"

definition WebhookUrlPattern :: regex where
  "WebhookUrlPattern =
     Seq (Lit ''http'') (Seq (Opt (Lit ''s'')) (Seq (Lit ''://'')
    (Seq (Opt (Alt (Lit ''ptb.'') (Lit ''canary.'')))
    (Seq (Lit ''discord.com/api'')
    (Seq (Opt (Seq (Lit ''/v'') (Rep digit_class 1 2)))
    (Seq (Lit ''/webhooks/'')
    (Seq (Grp ''id'' (Rep digit_class 17 19))
    (Seq (Lit ''/'')
         (Grp ''token'' (Rep word_dash_class 68 68))))))))))"

section \<open>Chat-webhook delivery\<close>

definition API_VERSION :: string where
  "API_VERSION = ''10''"

definition API_BASE_ENDPOINT :: string where
  "API_BASE_ENDPOINT = ''https://discord.com/api/v'' @ API_VERSION"

text \<open>A string is truthy when it is present and not empty.\<close>

fun truthy :: "string option \<Rightarrow> bool" where
  "truthy None = False"
| "truthy (Some s) = (s \<noteq> [])"

text \<open>\<open>a ?? b\<close>\<close>

fun nullish :: "'a option \<Rightarrow> 'a \<Rightarrow> 'a" where
  "nullish None d = d"
| "nullish (Some x) d = x"

text \<open>
  \<open>resolveWebhookOptions\<close>. The cast \<open><WebhookData>data\<close> is taken under the guard that
  both fields are truthy, and \<open>match.groups!.id\<close> reads a group that every match of the
  pattern sets.
\<close>

definition resolveWebhookOptions :: "WebhookOptions \<Rightarrow> WebhookData option" where
  "resolveWebhookOptions opts =
     (if truthy (opt_id opts) \<and> truthy (opt_token opts)
      then Some \<lparr>data_id = the (opt_id opts), data_token = the (opt_token opts)\<rparr>
      else (case regex_exec WebhookUrlPattern (nullish (opt_url opts) '''') of
              None \<Rightarrow> None
            | Some groups \<Rightarrow>
                Some \<lparr>data_id = the (map_of groups ''id''),
                      data_token = the (map_of groups ''token'')\<rparr>))"

definition webhookUrl :: "WebhookData \<Rightarrow> string" where
  "webhookUrl webhook =
     API_BASE_ENDPOINT @ ''/webhooks/'' @ data_id webhook @ ''/'' @ data_token webhook"

section \<open>The platform module, as far as the handler uses it\<close>

text \<open>
  The records of the platform's read API, with the fields the program reads. Both the
  stream and the channel have \<open>game_id\<close>, \<open>game_name\<close> and \<open>title\<close>; the channel's are
  prefixed here.
\<close>

record TwitchStream =
  user_id :: string
  user_login :: string
  user_name :: string
  game_id :: string
  game_name :: string
  title :: string
  started_at :: string
  language :: string
  thumbnail_url :: string

record TwitchChannel =
  broadcaster_id :: string
  broadcaster_login :: string
  broadcaster_name :: string
  broadcaster_language :: string
  channel_game_id :: string
  channel_game_name :: string
  channel_title :: string
  delay :: int

record TwitchUser =
  profile_image_url :: string

text \<open>
  The inbound request: \<open>headers_get\<close> is \<open>request.headers.get\<close>, \<open>blob\<close> the text
  of \<open>request.blob()\<close>.
\<close>

record Request =
  headers_get :: "string \<Rightarrow> string option"
  blob :: string

record Response =
  status :: nat
  response_body :: "string option"

text \<open>
  \<open>./twitch\<close>, \<open>./utils\<close>, \<open>relativeTimestamp\<close> of \<open>./discord\<close>, the built-ins
  \<open>JSON.parse\<close>, \<open>Date\<close> and \<open>parseInt\<close> and the network are not part of the
  sources at hand. Whatever they return is a parameter of the model: a field of
  \<open>externals\<close>. A call that can reject returns \<open>error + 'a\<close>.
  \<^item> \<open>verifyRequest secret request body\<close>, \<open>requestHeader request name\<close>,
    \<open>isStreamOnlineBody json\<close>, \<open>channelUrl login\<close>, \<open>relativeTimestamp ms\<close> are the
    functions of these names;
  \<^item> \<open>JSON_parse\<close> is \<open>JSON.parse\<close> followed by the reading of the fields of
    \<open>WebhookBody\<close>;
  \<^item> \<open>Date_now\<close> is the clock, \<open>Date_parse s\<close> is \<open>new Date(s).getTime()\<close>;
  \<^item> \<open>access_token clientId clientSecret\<close> is the token that \<open>authorize\<close>
    obtains, from its cache or from the token endpoint, or the failure to obtain one;
  \<^item> \<open>getStreams\<close>, \<open>getChannels\<close>, \<open>getUsers\<close> return the \<open>data\<close> array of the
    response;
  \<^item> \<open>http_fetch url message\<close> is the status of the response to the POST of the
    message to the url.
\<close>

record externals =
  RequestHeaders_MessageType :: string
  RequestHeaders_MessageTimestamp :: string
  StreamFilterType_Live :: string
  verifyRequest :: "string \<Rightarrow> Request \<Rightarrow> string \<Rightarrow> error + bool"
  requestHeader :: "Request \<Rightarrow> string \<Rightarrow> string option"
  JSON_parse :: "string \<Rightarrow> error + WebhookBody"
  isStreamOnlineBody :: "WebhookBody \<Rightarrow> bool"
  Date_now :: int
  Date_parse :: "string \<Rightarrow> number"
  parseInt :: "string \<Rightarrow> number"
  access_token :: "string \<Rightarrow> string \<Rightarrow> error + string"
  getStreams :: "string \<Rightarrow> string \<Rightarrow> StreamFilter \<Rightarrow> error + TwitchStream list"
  getChannels :: "string \<Rightarrow> string \<Rightarrow> string list \<Rightarrow> error + TwitchChannel list"
  getUsers :: "string \<Rightarrow> string \<Rightarrow> string list \<Rightarrow> error + TwitchUser list"
  channelUrl :: "string \<Rightarrow> string"
  relativeTimestamp :: "number \<Rightarrow> string"
  http_fetch :: "string \<Rightarrow> WebhookMessage \<Rightarrow> error + nat"

text \<open>
  Modelled from the spec: the three members of the enum \<open>NotificationType\<close> of
  \<open>./twitch\<close>, which is not among the sources. Section 6 of the specification gives the
  values of the message-type header: \<open>notification\<close>, \<open>webhook_callback_verification\<close>
  and \<open>revocation\<close>.
\<close>

definition NotificationType_Notification :: string where
  "NotificationType_Notification = ''notification''"

definition NotificationType_WebhookCallbackVerification :: string where
  "NotificationType_WebhookCallbackVerification = ''webhook_callback_verification''"

definition NotificationType_Revocation :: string where
  "NotificationType_Revocation = ''revocation''"

text \<open>
  Modelled from the spec: \<open>authorize\<close> of \<open>./twitch\<close>, which is not among the sources.
  Section 4.3: \<open>withToken(clientId, secret, fn) -> fn's result\<close>, where \<open>fn\<close> is given
  a valid bearer token; a failed token request propagates an authorization error.
\<close>

definition authorize :: "externals \<Rightarrow> string \<Rightarrow> string \<Rightarrow> (string \<Rightarrow> 'a io) \<Rightarrow> 'a io" where
  "authorize ext clientId clientSecret fn =
     bind_io (call_io (Authorize clientId clientSecret) (access_token ext clientId clientSecret)) fn"

text \<open>
  \<open>executeWebhook\<close>: the only HTTP request is the POST, and it is issued after the
  target has been resolved.
\<close>

definition executeWebhook :: "externals \<Rightarrow> WebhookOptions \<Rightarrow> WebhookMessage \<Rightarrow> unit io" where
  "executeWebhook ext webhookOptions message =
     (case resolveWebhookOptions webhookOptions of
        None \<Rightarrow> throw_io (WebhookError ''Failed to resolve webhook ID and token'')
      | Some webhook \<Rightarrow>
          (let url = webhookUrl webhook
           in bind_io (call_io (HttpPost url message) (http_fetch ext url message))
                (\<lambda>res_status.
                   if res_status \<noteq> 204 then throw_io (FetchError res_status)
                   else return_io ())))"

section \<open>The request handler\<close>

text \<open>Arithmetic and comparison of numbers: \<open>NaN\<close> propagates and compares false.\<close>

fun num_add :: "number \<Rightarrow> number \<Rightarrow> number" where
  "num_add (Some a) (Some b) = Some (a + b)"
| "num_add _ _ = None"

fun num_sub :: "number \<Rightarrow> number \<Rightarrow> number" where
  "num_sub (Some a) (Some b) = Some (a - b)"
| "num_sub _ _ = None"

fun num_gt :: "number \<Rightarrow> number \<Rightarrow> bool" where
  "num_gt (Some a) (Some b) = (a > b)"
| "num_gt _ _ = False"

text \<open>A \<open>Date\<close> object, built from a string by \<open>new Date(s)\<close>.\<close>

datatype date = NewDate string

fun getTime :: "externals \<Rightarrow> date \<Rightarrow> number" where
  "getTime ext (NewDate s) = Date_parse ext s"

record StreamInfo =
  userId :: string
  userLogin :: string
  userName :: string
  userAvatarUrl :: string
  gameId :: string
  gameName :: string
  info_title :: string
  info_delay :: int
  startedAt :: "date option"
  info_language :: string
  thumbnailUrl :: "string option"

definition checkAge :: "externals \<Rightarrow> Env \<Rightarrow> number \<Rightarrow> string \<Rightarrow> unit io" where
  "checkAge ext env timestamp rawTimestamp =
     (let age_warning =
            (if truthy (TWITCH_AGE_WARNING env)
             then parseInt ext (nullish (TWITCH_AGE_WARNING env) [])
             else Some 300000);
          now = Some (Date_now ext);
          age = num_sub now timestamp
      in if num_gt age age_warning
         then call_io (ConsoleWarn age_warning rawTimestamp) (Inr ())
         else return_io ())"

definition resolveTimestamp :: "externals \<Rightarrow> Request \<Rightarrow> Env \<Rightarrow> number io" where
  "resolveTimestamp ext request env =
     (let rawTimestamp = requestHeader ext request (RequestHeaders_MessageTimestamp ext)
      in if truthy rawTimestamp
         then (let timestamp = getTime ext (NewDate (nullish rawTimestamp []))
               in bind_io (checkAge ext env timestamp (nullish rawTimestamp []))
                    (\<lambda>_. return_io timestamp))
         else return_io (Some (Date_now ext)))"

definition resolveWebhookEnvs :: "Env \<Rightarrow> WebhookOptions" where
  "resolveWebhookEnvs env =
     \<lparr>opt_id = DISCORD_WEBHOOK_ID env,
      opt_token = DISCORD_WEBHOOK_TOKEN env,
      opt_url = DISCORD_WEBHOOK_URL env\<rparr>"

text \<open>\<open>const { data: [x] } = ...\<close>: the first element, or \<open>undefined\<close>.\<close>

fun first :: "'a list \<Rightarrow> 'a option" where
  "first [] = None"
| "first (x # xs) = Some x"

text \<open>\<open>obj.field\<close>, a \<open>TypeError\<close> when \<open>obj\<close> is \<open>undefined\<close>.\<close>

fun get_prop :: "'a option \<Rightarrow> ('a \<Rightarrow> 'b) \<Rightarrow> 'b io" where
  "get_prop None f = throw_io TypeError"
| "get_prop (Some obj) f = return_io (f obj)"

text \<open>\<open>obj?.field\<close>\<close>

definition opt_chain :: "'a option \<Rightarrow> ('a \<Rightarrow> 'b) \<Rightarrow> 'b option" where
  "opt_chain obj f = map_option f obj"

text \<open>\<open>a ?? b\<close> where evaluating \<open>b\<close> can throw: \<open>b\<close> is evaluated only when \<open>a\<close> is nullish.\<close>

fun nullish_io :: "'a option \<Rightarrow> 'a io \<Rightarrow> 'a io" where
  "nullish_io None b = b"
| "nullish_io (Some x) b = return_io x"

text \<open>
  \<open>Promise.all\<close> of three calls: all three are issued; it resolves to the three results
  and rejects when one of them rejects (with the rejection of the first in the array
  when several do).
\<close>

definition promise_all3 :: "'a io \<Rightarrow> 'b io \<Rightarrow> 'c io \<Rightarrow> ('a \<times> 'b \<times> 'c) io" where
  "promise_all3 p1 p2 p3 =
     (case (p1, p2, p3) of
        ((es1, r1), (es2, r2), (es3, r3)) \<Rightarrow>
          (es1 @ es2 @ es3,
           (case r1 of
              Inl e \<Rightarrow> Inl e
            | Inr x \<Rightarrow>
                (case r2 of
                   Inl e \<Rightarrow> Inl e
                 | Inr y \<Rightarrow> (case r3 of Inl e \<Rightarrow> Inl e | Inr z \<Rightarrow> Inr (x, y, z))))))"

text \<open>The object literal of \<open>fetchEventSubStreamInfo\<close>, its properties evaluated in order.\<close>

definition mergeStreamInfo ::
  "TwitchStream option \<Rightarrow> TwitchChannel option \<Rightarrow> TwitchUser option \<Rightarrow> StreamInfo io" where
  "mergeStreamInfo stream channel user =
     bind_io (nullish_io (opt_chain stream user_id) (get_prop channel broadcaster_id)) (\<lambda>v_userId.
     bind_io (nullish_io (opt_chain stream user_login) (get_prop channel broadcaster_login)) (\<lambda>v_userLogin.
     bind_io (nullish_io (opt_chain stream user_name) (get_prop channel broadcaster_name)) (\<lambda>v_userName.
     bind_io (get_prop user profile_image_url) (\<lambda>v_userAvatarUrl.
     bind_io (nullish_io (opt_chain stream game_id) (get_prop channel channel_game_id)) (\<lambda>v_gameId.
     bind_io (nullish_io (opt_chain stream game_name) (get_prop channel channel_game_name)) (\<lambda>v_gameName.
     bind_io (nullish_io (opt_chain stream title) (get_prop channel channel_title)) (\<lambda>v_title.
     bind_io (get_prop channel delay) (\<lambda>v_delay.
     bind_io (return_io (if truthy (opt_chain stream started_at)
                         then Some (NewDate (nullish (opt_chain stream started_at) []))
                         else None)) (\<lambda>v_startedAt.
     bind_io (nullish_io (opt_chain stream language) (get_prop channel broadcaster_language)) (\<lambda>v_language.
     return_io
       \<lparr>userId = v_userId,
        userLogin = v_userLogin,
        userName = v_userName,
        userAvatarUrl = v_userAvatarUrl,
        gameId = v_gameId,
        gameName = v_gameName,
        info_title = v_title,
        info_delay = v_delay,
        startedAt = v_startedAt,
        info_language = v_language,
        thumbnailUrl = opt_chain stream thumbnail_url\<rparr>))))))))))"

definition fetchEventSubStreamInfo :: "externals \<Rightarrow> Env \<Rightarrow> WebhookBody \<Rightarrow> StreamInfo io" where
  "fetchEventSubStreamInfo ext env body =
     authorize ext (TWITCH_CLIENT_ID env) (TWITCH_CLIENT_SECRET env)
       (\<lambda>token.
          bind_io
            (promise_all3
               (let filter = \<lparr>filter_type = StreamFilterType_Live ext,
                              filter_userIds = [broadcaster_user_id body]\<rparr>
                in call_io (GetStreams (TWITCH_CLIENT_ID env) token filter)
                     (getStreams ext (TWITCH_CLIENT_ID env) token filter))
               (call_io (GetChannels (TWITCH_CLIENT_ID env) token [broadcaster_user_id body])
                  (getChannels ext (TWITCH_CLIENT_ID env) token [broadcaster_user_id body]))
               (call_io (GetUsers (TWITCH_CLIENT_ID env) token [broadcaster_user_id body])
                  (getUsers ext (TWITCH_CLIENT_ID env) token [broadcaster_user_id body])))
            (\<lambda>(streams, channels, users).
               mergeStreamInfo (first streams) (first channels) (first users)))"

text \<open>
  \<open>String.prototype.replace\<close> with a string pattern: only the first occurrence of the
  pattern is replaced.
\<close>

fun replace_first :: "string \<Rightarrow> string \<Rightarrow> string \<Rightarrow> string" where
  "replace_first pat rep [] = (if pat = [] then rep else [])"
| "replace_first pat rep (c # cs) =
     (if take (length pat) (c # cs) = pat then rep @ drop (length pat) (c # cs)
      else c # replace_first pat rep cs)"

definition forwardNotification_try :: "externals \<Rightarrow> Env \<Rightarrow> WebhookBody \<Rightarrow> number \<Rightarrow> unit io" where
  "forwardNotification_try ext env body timestamp =
     bind_io (fetchEventSubStreamInfo ext env body) (\<lambda>info.
       executeWebhook ext (resolveWebhookEnvs env)
         \<lparr>username = DISCORD_USERNAME env,
          avatar_url = DISCORD_AVATAR_URL env,
          content = Some ''@everyone'',
          embeds = Some
            [\<lparr>embed_title = info_title info,
              embed_url = channelUrl ext (userLogin info),
              embed_thumbnail = userAvatarUrl info,
              embed_description =
                ''**'' @ userName info @ ''** ''
                @ (if startedAt info \<noteq> None then ''went live'' else ''goes live'') @ '' ''
                @ relativeTimestamp ext
                    (nullish (opt_chain (startedAt info) (getTime ext))
                       (num_add timestamp (Some (info_delay info))))
                @ [CHR 0x0A] @ ''Playing **'' @ gameName info @ ''**'',
              embed_image =
                (if truthy (thumbnailUrl info) then thumbnailUrl info else None)\<rparr>]\<rparr>)"

definition forwardNotification :: "externals \<Rightarrow> Env \<Rightarrow> WebhookBody \<Rightarrow> number \<Rightarrow> unit io" where
  "forwardNotification ext env body timestamp =
     try_catch_log (forwardNotification_try ext env body timestamp)"

definition forwardRevocation_try :: "externals \<Rightarrow> Env \<Rightarrow> WebhookBody \<Rightarrow> unit io" where
  "forwardRevocation_try ext env body =
     bind_io
       (authorize ext (TWITCH_CLIENT_ID env) (TWITCH_CLIENT_SECRET env)
          (\<lambda>token.
             call_io (GetChannels (TWITCH_CLIENT_ID env) token [broadcaster_user_id body])
               (getChannels ext (TWITCH_CLIENT_ID env) token [broadcaster_user_id body])))
       (\<lambda>channels.
          let channel = first channels;
              status = replace_first ''_'' '' '' (subscription_status body)
          in bind_io (get_prop channel broadcaster_name) (\<lambda>channel_name.
               executeWebhook ext (resolveWebhookEnvs env)
                 \<lparr>username = DISCORD_USERNAME env,
                  avatar_url = DISCORD_AVATAR_URL env,
                  content = Some (''Subscription to channel **'' @ channel_name
                                  @ ''** revoked: '' @ status),
                  embeds = None\<rparr>))"

definition forwardRevocation :: "externals \<Rightarrow> Env \<Rightarrow> WebhookBody \<Rightarrow> unit io" where
  "forwardRevocation ext env body = try_catch_log (forwardRevocation_try ext env body)"

text \<open>
  \<open>ctx.waitUntil(promise)\<close> records the promise; the work it stands for is run by
  \<open>run_task\<close>, apart from the response.
\<close>

definition handleNotification :: "Env \<Rightarrow> WebhookBody \<Rightarrow> number \<Rightarrow> Response io" where
  "handleNotification env body timestamp =
     bind_io (call_io (WaitUntil (ForwardNotification env body timestamp)) (Inr ()))
       (\<lambda>_. return_io \<lparr>status = 204, response_body = None\<rparr>)"

definition handleChallenge :: "WebhookBody \<Rightarrow> Response" where
  "handleChallenge body = \<lparr>status = 200, response_body = challenge body\<rparr>"

definition handleRevocation :: "Env \<Rightarrow> WebhookBody \<Rightarrow> Response io" where
  "handleRevocation env body =
     bind_io (call_io (WaitUntil (ForwardRevocation env body)) (Inr ()))
       (\<lambda>_. return_io \<lparr>status = 204, response_body = None\<rparr>)"

text \<open>
  The \<open>try\<close> block of \<open>fetch\<close>. Its value is the response of a \<open>return\<close>, or \<open>None\<close>
  when the \<open>switch\<close> matches no case and the block ends.
\<close>

definition fetch_try :: "externals \<Rightarrow> Request \<Rightarrow> Env \<Rightarrow> Response option io" where
  "fetch_try ext request env =
     bind_io (call_io ReadBody (Inr (blob request))) (\<lambda>body.
     bind_io (call_io VerifyRequest (verifyRequest ext (TWITCH_CLIENT_SECRET env) request body))
       (\<lambda>verified.
     if \<not> verified then return_io (Some \<lparr>status = 401, response_body = None\<rparr>)
     else
     bind_io (resolveTimestamp ext request env) (\<lambda>timestamp.
     bind_io (call_io ParseBody (JSON_parse ext body)) (\<lambda>json.
     bind_io (call_io CheckBody (Inr (isStreamOnlineBody ext json))) (\<lambda>supported.
     if \<not> supported then return_io (Some \<lparr>status = 403, response_body = None\<rparr>)
     else
       (let messageType = headers_get request (RequestHeaders_MessageType ext)
        in if messageType = Some NotificationType_Notification
           then bind_io (handleNotification env json timestamp) (\<lambda>r. return_io (Some r))
           else if messageType = Some NotificationType_WebhookCallbackVerification
           then return_io (Some (handleChallenge json))
           else if messageType = Some NotificationType_Revocation
           then bind_io (handleRevocation env json) (\<lambda>r. return_io (Some r))
           else return_io None))))))"

definition fetch :: "externals \<Rightarrow> Request \<Rightarrow> Env \<Rightarrow> event list \<times> Response" where
  "fetch ext request env =
     (case fetch_try ext request env of
        (es, Inl err) \<Rightarrow> (es @ [ConsoleError err], \<lparr>status = 400, response_body = None\<rparr>)
      | (es, Inr None) \<Rightarrow> (es, \<lparr>status = 400, response_body = None\<rparr>)
      | (es, Inr (Some response)) \<Rightarrow> (es, response))"

fun run_task :: "externals \<Rightarrow> task \<Rightarrow> unit io" where
  "run_task ext (ForwardNotification env body timestamp) =
     forwardNotification ext env body timestamp"
| "run_task ext (ForwardRevocation env body) = forwardRevocation ext env body"

text \<open>The promises that a run of the handler handed to \<open>ctx.waitUntil\<close>.\<close>

fun scheduled :: "event list \<Rightarrow> task list" where
  "scheduled [] = []"
| "scheduled (WaitUntil t # es) = t # scheduled es"
| "scheduled (_ # es) = scheduled es"

text \<open>
  The events beyond the reading and checking of the request itself: the scheduling of
  background work, token acquisition, the calls of the platform's read API and the
  POST to the chat webhook.
\<close>

fun downstream :: "event \<Rightarrow> bool" where
  "downstream (WaitUntil _) = True"
| "downstream (Authorize _ _) = True"
| "downstream (GetStreams _ _ _) = True"
| "downstream (GetChannels _ _ _) = True"
| "downstream (GetUsers _ _ _) = True"
| "downstream (HttpPost _ _) = True"
| "downstream _ = False"

text \<open>The calls of the read API that look a stream or a user up.\<close>

fun stream_or_user_lookup :: "event \<Rightarrow> bool" where
  "stream_or_user_lookup (GetStreams _ _ _) = True"
| "stream_or_user_lookup (GetUsers _ _ _) = True"
| "stream_or_user_lookup _ = False"

section \<open>An example world\<close>

text \<open>
  One concrete choice of everything outside the sources, on which the properties below
  are run: four body texts that parse, a signature header that verifies, broadcaster
  \<open>1337\<close> who is live, \<open>7\<close> who is offline, \<open>8\<close> who is offline and has no user
  record, \<open>9\<close> whose user lookup is rejected, and a chat webhook that accepts every
  message.
\<close>

definition example_body :: "string \<Rightarrow> string \<Rightarrow> WebhookBody" where
  "example_body b s =
     \<lparr>subscription_type = ''stream.online'', subscription_status = s,
      broadcaster_user_id = b, challenge = None\<rparr>"

definition example_challenge :: WebhookBody where
  "example_challenge =
     (example_body ''1337'' ''webhook_callback_verification_pending'')
       \<lparr>challenge := Some ''abc123''\<rparr>"

definition example_follow :: WebhookBody where
  "example_follow = (example_body ''1337'' ''enabled'')\<lparr>subscription_type := ''channel.follow''\<rparr>"

definition example_parse :: "string \<Rightarrow> error + WebhookBody" where
  "example_parse s =
     (if s = ''challenge for 1337'' then Inr example_challenge
      else if s = ''1337 is online'' then Inr (example_body ''1337'' ''enabled'')
      else if s = ''7 was removed'' then Inr (example_body ''7'' ''user_removed'')
      else if s = ''1337 has a follower'' then Inr example_follow
      else Inl SyntaxError)"

definition example_stream :: TwitchStream where
  "example_stream =
     \<lparr>user_id = ''1337'', user_login = ''streamer'', user_name = ''Streamer'',
      game_id = ''509658'', game_name = ''Just Chatting'', title = ''Live now'',
      started_at = ''2023-01-01T12:00:00Z'', language = ''en'',
      thumbnail_url = ''https://example.com/live.jpg''\<rparr>"

definition example_channel :: "string \<Rightarrow> TwitchChannel" where
  "example_channel b =
     \<lparr>broadcaster_id = b, broadcaster_login = ''channel'' @ b,
      broadcaster_name = ''Channel'' @ b, broadcaster_language = ''de'',
      channel_game_id = ''33214'', channel_game_name = ''Fortnite'',
      channel_title = ''Last broadcast'', delay = 30\<rparr>"

definition example_user :: TwitchUser where
  "example_user = \<lparr>profile_image_url = ''https://example.com/avatar.png''\<rparr>"

definition example_externals :: externals where
  "example_externals =
     \<lparr>RequestHeaders_MessageType = ''Twitch-Eventsub-Message-Type'',
      RequestHeaders_MessageTimestamp = ''Twitch-Eventsub-Message-Timestamp'',
      StreamFilterType_Live = ''live'',
      verifyRequest = (\<lambda>secret request body.
        Inr (headers_get request ''Twitch-Eventsub-Message-Signature'' = Some ''sha256=valid'')),
      requestHeader = (\<lambda>request name. headers_get request name),
      JSON_parse = example_parse,
      isStreamOnlineBody = (\<lambda>json. subscription_type json = ''stream.online''),
      Date_now = 1672574460000,
      Date_parse = (\<lambda>s. if s = ''2023-01-01T12:00:00Z'' then Some 1672574400000 else None),
      parseInt = (\<lambda>s. if s = ''1000'' then Some 1000 else None),
      access_token = (\<lambda>clientId clientSecret.
        if clientSecret = ''secret'' then Inr ''token'' else Inl (Rejected ''invalid client'')),
      getStreams = (\<lambda>clientId token filter.
        if filter_userIds filter = [''1337''] then Inr [example_stream] else Inr []),
      getChannels = (\<lambda>clientId token ids.
        if ids = [''404''] then Inr [] else Inr (map example_channel ids)),
      getUsers = (\<lambda>clientId token ids.
        if ids = [''8''] then Inr []
        else if ids = [''9''] then Inl (Rejected ''users unavailable'')
        else Inr [example_user]),
      channelUrl = (\<lambda>login. ''https://twitch.tv/'' @ login),
      relativeTimestamp = (\<lambda>ms. ''soon''),
      http_fetch = (\<lambda>url message. Inr 204)\<rparr>"

definition example_token :: string where
  "example_token = ''abcdefghijklmnopqrstuvwxyzABCDEFGHIJKLMNOPQRSTUVWXYZ0123456789_-abcd''"

definition example_env :: Env where
  "example_env =
     \<lparr>TWITCH_CLIENT_ID = ''client'',
      TWITCH_CLIENT_SECRET = ''secret'',
      TWITCH_AGE_WARNING = None,
      DISCORD_WEBHOOK_ID = Some ''123456789012345678'',
      DISCORD_WEBHOOK_TOKEN = Some example_token,
      DISCORD_WEBHOOK_URL = None,
      DISCORD_USERNAME = None,
      DISCORD_AVATAR_URL = None\<rparr>"

text \<open>A request with the given signature, message type and body text.\<close>

definition example_request :: "string \<Rightarrow> string option \<Rightarrow> string \<Rightarrow> Request" where
  "example_request signature messageType text =
     \<lparr>headers_get = (\<lambda>name.
        if name = ''Twitch-Eventsub-Message-Signature'' then Some signature
        else if name = ''Twitch-Eventsub-Message-Type'' then messageType
        else None),
      blob = text\<rparr>"

definition example_message :: WebhookMessage where
  "example_message =
     \<lparr>username = None, avatar_url = None, content = Some ''hello'', embeds = None\<rparr>"

definition example_webhook_url :: string where
  "example_webhook_url =
     ''https://discord.com/api/webhooks/876543210987654321/'' @ example_token"

definition example_other_url :: string where
  "example_other_url = ''https://example.com/''"

text \<open>The example world during an outage of everything downstream.\<close>

definition example_outage :: externals where
  "example_outage =
     example_externals
       \<lparr>access_token := (\<lambda>clientId clientSecret. Inl (Rejected ''token endpoint down'')),
        getStreams := (\<lambda>clientId token filter. Inl (Rejected ''streams unavailable'')),
        getChannels := (\<lambda>clientId token ids. Inl (Rejected ''channels unavailable'')),
        getUsers := (\<lambda>clientId token ids. Inl (Rejected ''users unavailable'')),
        http_fetch := (\<lambda>url message. Inr 500)\<rparr>"

section \<open>Properties\<close>

subsection \<open>Computations\<close>

lemma bind_io_Inr: "bind_io (es, Inr x) f = (es @ fst (f x), snd (f x))"
  by (simp add: bind_io_def split: prod.splits)

lemma bind_io_Inl: "bind_io (es, Inl e) f = (es, Inl e)"
  by (simp add: bind_io_def)

lemma bind_io_call_Inr: "bind_io (call_io ev (Inr x)) f = (ev # fst (f x), snd (f x))"
  by (simp add: call_io_def bind_io_Inr)

lemma bind_io_return: "bind_io (return_io x) f = f x"
  by (simp add: return_io_def bind_io_Inr)

lemma try_catch_log_returns: "snd (try_catch_log m) = Inr ()"
  by (cases m) (simp add: try_catch_log_def split: sum.splits)

lemma try_catch_log_logs:
  "snd m = Inl e \<Longrightarrow> fst (try_catch_log m) = fst m @ [ConsoleError e]"
  by (cases m) (simp add: try_catch_log_def)

lemma scheduled_append: "scheduled (xs @ ys) = scheduled xs @ scheduled ys"
  by (induction xs rule: scheduled.induct) simp_all

subsection \<open>The example world\<close>

lemma example_verifyRequest:
  "verifyRequest example_externals secret (example_request signature messageType text) body
     = Inr (signature = ''sha256=valid'')"
  by (simp add: example_externals_def example_request_def)

lemma example_JSON_parse:
  "JSON_parse example_externals (blob (example_request signature messageType text))
     = example_parse text"
  by (simp add: example_externals_def example_request_def)

lemma example_isStreamOnlineBody:
  "isStreamOnlineBody example_externals (example_body b s)"
  "isStreamOnlineBody example_externals example_challenge"
  "\<not> isStreamOnlineBody example_externals example_follow"
  by (simp_all add: example_externals_def example_body_def example_challenge_def
        example_follow_def)

lemma example_challenge_carried: "challenge example_challenge = Some ''abc123''"
  by (simp add: example_challenge_def)

lemma example_messageType:
  "headers_get (example_request signature messageType text)
     (RequestHeaders_MessageType example_externals) = messageType"
  by (simp add: example_externals_def example_request_def)

subsection \<open>The timestamp of a request\<close>

lemma checkAge_shape:
  "checkAge ext env timestamp raw = ([], Inr ())
   \<or> (\<exists>w. checkAge ext env timestamp raw = ([ConsoleWarn w raw], Inr ()))"
  by (simp add: checkAge_def Let_def call_io_def return_io_def)

text \<open>
  \<open>resolveTimestamp\<close> never throws, and all it does to the outside is the age warning.
\<close>

lemma resolveTimestamp_shape:
  "\<exists>es ts. resolveTimestamp ext request env = (es, Inr ts)
      \<and> filter downstream es = [] \<and> scheduled es = []"
proof (cases "truthy (requestHeader ext request (RequestHeaders_MessageTimestamp ext))")
  case False
  then show ?thesis by (simp add: resolveTimestamp_def Let_def return_io_def)
next
  case True
  let ?raw = "nullish (requestHeader ext request (RequestHeaders_MessageTimestamp ext)) []"
  let ?ts = "getTime ext (NewDate ?raw)"
  from checkAge_shape [of ext env ?ts ?raw] show ?thesis
  proof
    assume "checkAge ext env ?ts ?raw = ([], Inr ())"
    with True show ?thesis
      by (simp add: resolveTimestamp_def Let_def return_io_def bind_io_Inr)
  next
    assume "\<exists>w. checkAge ext env ?ts ?raw = ([ConsoleWarn w ?raw], Inr ())"
    then obtain w where "checkAge ext env ?ts ?raw = ([ConsoleWarn w ?raw], Inr ())" ..
    with True show ?thesis
      by (simp add: resolveTimestamp_def Let_def return_io_def bind_io_Inr)
  qed
qed

lemma NotificationType_distinct:
  "NotificationType_Notification \<noteq> NotificationType_WebhookCallbackVerification"
  "NotificationType_Notification \<noteq> NotificationType_Revocation"
  "NotificationType_WebhookCallbackVerification \<noteq> NotificationType_Revocation"
  "NotificationType_WebhookCallbackVerification \<noteq> NotificationType_Notification"
  "NotificationType_Revocation \<noteq> NotificationType_Notification"
  "NotificationType_Revocation \<noteq> NotificationType_WebhookCallbackVerification"
  by (simp_all add: NotificationType_Notification_def NotificationType_Revocation_def
        NotificationType_WebhookCallbackVerification_def)

subsection \<open>The answers of the handler\<close>

text \<open>
  C2. When \<open>verifyRequest\<close> returns false, \<open>fetch\<close> answers 401 with an empty body, and
  the body read and the verification are all it has done: the body was not parsed or
  checked, no promise was handed to \<open>ctx.waitUntil\<close>, and no token, platform or
  webhook call was made.
\<close>

theorem fetch_unverified_401:
  assumes "verifyRequest ext (TWITCH_CLIENT_SECRET env) request (blob request) = Inr False"
  shows "fetch ext request env
           = ([ReadBody, VerifyRequest], \<lparr>status = 401, response_body = None\<rparr>)"
  using assms
  by (simp add: fetch_def fetch_try_def bind_io_call_Inr return_io_def)

theorem fetch_unverified_401_witness:
  "fetch example_externals
     (example_request ''sha256=forged'' (Some ''notification'') ''1337 is online'') example_env
     = ([ReadBody, VerifyRequest], \<lparr>status = 401, response_body = None\<rparr>)"
  using fetch_unverified_401
    [where ext = example_externals and env = example_env
       and request = "example_request ''sha256=forged'' (Some ''notification'') ''1337 is online''"]
  by (simp add: example_verifyRequest)

text \<open>
  C4. A verified request whose parsed body is not a stream-online body is answered 403
  with an empty body. The message-type header is not read before: the answer is the same
  for every request, whatever its headers, and nothing was scheduled or called.
\<close>

theorem fetch_unsupported_body_403:
  assumes "verifyRequest ext (TWITCH_CLIENT_SECRET env) request (blob request) = Inr True"
    and "JSON_parse ext (blob request) = Inr json"
    and "\<not> isStreamOnlineBody ext json"
  shows "fetch ext request env
           = ([ReadBody, VerifyRequest] @ fst (resolveTimestamp ext request env)
                @ [ParseBody, CheckBody],
              \<lparr>status = 403, response_body = None\<rparr>)"
proof -
  obtain es ts where r: "resolveTimestamp ext request env = (es, Inr ts)"
    using resolveTimestamp_shape by blast
  show ?thesis
    using assms
    by (simp add: fetch_def fetch_try_def bind_io_call_Inr r bind_io_Inr return_io_def)
qed

theorem fetch_unsupported_body_403_witness:
  "snd (fetch example_externals
          (example_request ''sha256=valid'' (Some ''notification'') ''1337 has a follower'')
          example_env)
     = \<lparr>status = 403, response_body = None\<rparr>
   \<and> snd (fetch example_externals
          (example_request ''sha256=valid'' (Some ''webhook_callback_verification'')
             ''1337 has a follower'')
          example_env)
     = \<lparr>status = 403, response_body = None\<rparr>
   \<and> snd (fetch example_externals
          (example_request ''sha256=valid'' (Some ''revocation'') ''1337 has a follower'')
          example_env)
     = \<lparr>status = 403, response_body = None\<rparr>"
  using fetch_unsupported_body_403
    [where ext = example_externals and env = example_env and json = example_follow
       and request = "example_request ''sha256=valid'' (Some ''notification'')
                        ''1337 has a follower''"]
    fetch_unsupported_body_403
    [where ext = example_externals and env = example_env and json = example_follow
       and request = "example_request ''sha256=valid'' (Some ''webhook_callback_verification'')
                        ''1337 has a follower''"]
    fetch_unsupported_body_403
    [where ext = example_externals and env = example_env and json = example_follow
       and request = "example_request ''sha256=valid'' (Some ''revocation'')
                        ''1337 has a follower''"]
  by (simp add: example_verifyRequest example_JSON_parse example_parse_def
        example_isStreamOnlineBody)

text \<open>
  C5, as the claim states it, fails: a verified stream-online request without a
  message-type header is answered 400, not 403.
\<close>

theorem fetch_unknown_kind_not_403:
  "verifyRequest example_externals (TWITCH_CLIENT_SECRET example_env)
     (example_request ''sha256=valid'' None ''1337 is online'') ''1337 is online'' = Inr True
   \<and> JSON_parse example_externals ''1337 is online'' = Inr (example_body ''1337'' ''enabled'')
   \<and> isStreamOnlineBody example_externals (example_body ''1337'' ''enabled'')
   \<and> headers_get (example_request ''sha256=valid'' None ''1337 is online'')
        (RequestHeaders_MessageType example_externals) = None
   \<and> status (snd (fetch example_externals
                     (example_request ''sha256=valid'' None ''1337 is online'') example_env))
        \<noteq> 403"
  by (simp add: fetch_def fetch_try_def resolveTimestamp_def example_externals_def
        example_request_def example_env_def example_parse_def example_body_def bind_io_def
        call_io_def return_io_def Let_def)

text \<open>
  C5, amended. A verified request with a stream-online body whose message-type header is
  missing or is none of the three known kinds matches no case of the \<open>switch\<close>: the
  handler answers 400 with an empty body, and nothing was scheduled or called.
\<close>

theorem fetch_unknown_kind_400:
  assumes "verifyRequest ext (TWITCH_CLIENT_SECRET env) request (blob request) = Inr True"
    and "JSON_parse ext (blob request) = Inr json"
    and "isStreamOnlineBody ext json"
    and "headers_get request (RequestHeaders_MessageType ext)
           \<noteq> Some NotificationType_Notification"
    and "headers_get request (RequestHeaders_MessageType ext)
           \<noteq> Some NotificationType_WebhookCallbackVerification"
    and "headers_get request (RequestHeaders_MessageType ext)
           \<noteq> Some NotificationType_Revocation"
  shows "fetch ext request env
           = ([ReadBody, VerifyRequest] @ fst (resolveTimestamp ext request env)
                @ [ParseBody, CheckBody],
              \<lparr>status = 400, response_body = None\<rparr>)"
proof -
  obtain es ts where r: "resolveTimestamp ext request env = (es, Inr ts)"
    using resolveTimestamp_shape by blast
  show ?thesis
    using assms
    by (simp add: fetch_def fetch_try_def bind_io_call_Inr r bind_io_Inr return_io_def Let_def)
qed

theorem fetch_unknown_kind_400_witness:
  "snd (fetch example_externals
          (example_request ''sha256=valid'' None ''1337 is online'') example_env)
     = \<lparr>status = 400, response_body = None\<rparr>
   \<and> snd (fetch example_externals
          (example_request ''sha256=valid'' (Some ''Notification'') ''1337 is online'')
          example_env)
     = \<lparr>status = 400, response_body = None\<rparr>"
  using fetch_unknown_kind_400
    [where ext = example_externals and env = example_env
       and json = "example_body ''1337'' ''enabled''"
       and request = "example_request ''sha256=valid'' None ''1337 is online''"]
    fetch_unknown_kind_400
    [where ext = example_externals and env = example_env
       and json = "example_body ''1337'' ''enabled''"
       and request = "example_request ''sha256=valid'' (Some ''Notification'')
                        ''1337 is online''"]
  by (simp add: example_verifyRequest example_JSON_parse example_parse_def
        example_isStreamOnlineBody example_messageType NotificationType_Notification_def
        NotificationType_WebhookCallbackVerification_def NotificationType_Revocation_def)

text \<open>
  C8. A verified \<open>webhook_callback_verification\<close> request whose stream-online body
  carries the challenge \<open>c\<close> is answered 200 with body \<open>c\<close>; the handler scheduled
  nothing and made no token, platform or webhook call.
\<close>

theorem fetch_challenge_200:
  assumes "verifyRequest ext (TWITCH_CLIENT_SECRET env) request (blob request) = Inr True"
    and "JSON_parse ext (blob request) = Inr json"
    and "isStreamOnlineBody ext json"
    and "headers_get request (RequestHeaders_MessageType ext)
           = Some NotificationType_WebhookCallbackVerification"
    and "challenge json = Some c"
  shows "snd (fetch ext request env) = \<lparr>status = 200, response_body = Some c\<rparr>
         \<and> filter downstream (fst (fetch ext request env)) = []"
proof -
  obtain es ts where r: "resolveTimestamp ext request env = (es, Inr ts)"
    and q: "filter downstream es = []"
    using resolveTimestamp_shape by blast
  show ?thesis
    using assms q
    by (simp add: fetch_def fetch_try_def bind_io_call_Inr r bind_io_Inr return_io_def Let_def
          handleChallenge_def NotificationType_distinct)
qed

theorem fetch_challenge_200_witness:
  "snd (fetch example_externals
          (example_request ''sha256=valid'' (Some ''webhook_callback_verification'')
             ''challenge for 1337'')
          example_env)
     = \<lparr>status = 200, response_body = Some ''abc123''\<rparr>
   \<and> filter downstream
         (fst (fetch example_externals
                 (example_request ''sha256=valid'' (Some ''webhook_callback_verification'')
                    ''challenge for 1337'')
                 example_env)) = []"
  using fetch_challenge_200
    [where ext = example_externals and env = example_env and json = example_challenge
       and c = "''abc123''"
       and request = "example_request ''sha256=valid'' (Some ''webhook_callback_verification'')
                        ''challenge for 1337''"]
  by (simp add: example_verifyRequest example_JSON_parse example_parse_def
        example_isStreamOnlineBody example_messageType example_challenge_carried
        NotificationType_WebhookCallbackVerification_def)

text \<open>
  A verified stream-online request of kind \<open>notification\<close> or \<open>revocation\<close>: the run
  of the handler, in full.
\<close>

lemma fetch_accepted:
  assumes "verifyRequest ext (TWITCH_CLIENT_SECRET env) request (blob request) = Inr True"
    and "JSON_parse ext (blob request) = Inr json"
    and "isStreamOnlineBody ext json"
    and "headers_get request (RequestHeaders_MessageType ext) = Some NotificationType_Notification
         \<or> headers_get request (RequestHeaders_MessageType ext) = Some NotificationType_Revocation"
  shows "\<exists>es ts. fetch ext request env
           = ([ReadBody, VerifyRequest] @ es @ [ParseBody, CheckBody,
                WaitUntil (if headers_get request (RequestHeaders_MessageType ext)
                                = Some NotificationType_Notification
                           then ForwardNotification env json ts
                           else ForwardRevocation env json)],
              \<lparr>status = 204, response_body = None\<rparr>)
           \<and> scheduled es = []"
proof -
  obtain es ts where r: "resolveTimestamp ext request env = (es, Inr ts)"
    and q: "scheduled es = []"
    using resolveTimestamp_shape by blast
  from assms(4) have "fetch ext request env
           = ([ReadBody, VerifyRequest] @ es @ [ParseBody, CheckBody,
                WaitUntil (if headers_get request (RequestHeaders_MessageType ext)
                                = Some NotificationType_Notification
                           then ForwardNotification env json ts
                           else ForwardRevocation env json)],
              \<lparr>status = 204, response_body = None\<rparr>)"
  proof
    assume "headers_get request (RequestHeaders_MessageType ext)
              = Some NotificationType_Notification"
    with assms(1-3) show ?thesis
      by (simp add: fetch_def fetch_try_def bind_io_call_Inr r bind_io_Inr return_io_def Let_def
            handleNotification_def)
  next
    assume "headers_get request (RequestHeaders_MessageType ext)
              = Some NotificationType_Revocation"
    with assms(1-3) show ?thesis
      by (simp add: fetch_def fetch_try_def bind_io_call_Inr r bind_io_Inr return_io_def Let_def
            handleRevocation_def NotificationType_distinct)
  qed
  with q show ?thesis by blast
qed

lemma run_task_returns: "snd (run_task ext t) = Inr ()"
  by (cases t) (simp_all add: forwardNotification_def forwardRevocation_def try_catch_log_returns)

lemma example_outage_revocation_try:
  "forwardRevocation_try example_outage example_env (example_body ''7'' ''user_removed'')
     = ([Authorize ''client'' ''secret''], Inl (Rejected ''token endpoint down''))"
  by (simp add: forwardRevocation_try_def authorize_def example_outage_def example_env_def
        call_io_def bind_io_Inl)

lemma example_outage_notification_try:
  "forwardNotification_try example_outage example_env (example_body ''1337'' ''enabled'') ts
     = ([Authorize ''client'' ''secret''], Inl (Rejected ''token endpoint down''))"
  by (simp add: forwardNotification_try_def fetchEventSubStreamInfo_def authorize_def
        example_outage_def example_env_def call_io_def bind_io_Inl)

text \<open>
  C7. A verified stream-online request of kind \<open>notification\<close> or \<open>revocation\<close> is
  answered 204 with an empty body, and the answer is the same when token acquisition,
  the three lookups and the POST to the chat webhook are replaced by any others
  (\<open>tok\<close>, \<open>gs\<close>, \<open>gc\<close>, \<open>gu\<close>, \<open>post\<close>): it does not depend on what they return. The
  handler hands exactly one promise to \<open>ctx.waitUntil\<close>. Whatever the world \<open>ext'\<close>, the
  work \<open>t\<close> behind such a promise never throws: when the \<open>try\<close> block of
  \<open>forwardNotification\<close> or of \<open>forwardRevocation\<close> throws \<open>e\<close>, the function logs \<open>e\<close>
  with \<open>console.error\<close> after what the block did, and returns.
\<close>

theorem fetch_accepted_204_whatever_follows:
  assumes "verifyRequest ext (TWITCH_CLIENT_SECRET env) request (blob request) = Inr True"
    and "JSON_parse ext (blob request) = Inr json"
    and "isStreamOnlineBody ext json"
    and "headers_get request (RequestHeaders_MessageType ext) = Some NotificationType_Notification
         \<or> headers_get request (RequestHeaders_MessageType ext) = Some NotificationType_Revocation"
  shows "snd (fetch (ext\<lparr>access_token := tok, getStreams := gs, getChannels := gc,
                         getUsers := gu, http_fetch := post\<rparr>) request env)
           = \<lparr>status = 204, response_body = None\<rparr>
       \<and> (\<exists>ts. scheduled (fst (fetch ext request env))
                  = [if headers_get request (RequestHeaders_MessageType ext)
                          = Some NotificationType_Notification
                     then ForwardNotification env json ts
                     else ForwardRevocation env json])
       \<and> snd (run_task ext' t) = Inr ()
       \<and> (snd (forwardNotification_try ext' env' body' ts') = Inl e \<longrightarrow>
            fst (forwardNotification ext' env' body' ts')
              = fst (forwardNotification_try ext' env' body' ts') @ [ConsoleError e])
       \<and> (snd (forwardRevocation_try ext' env' body') = Inl e \<longrightarrow>
            fst (forwardRevocation ext' env' body')
              = fst (forwardRevocation_try ext' env' body') @ [ConsoleError e])"
proof (intro conjI)
  let ?ext = "ext\<lparr>access_token := tok, getStreams := gs, getChannels := gc,
                  getUsers := gu, http_fetch := post\<rparr>"
  have "\<exists>es ts. fetch ?ext request env
           = ([ReadBody, VerifyRequest] @ es @ [ParseBody, CheckBody,
                WaitUntil (if headers_get request (RequestHeaders_MessageType ?ext)
                                = Some NotificationType_Notification
                           then ForwardNotification env json ts
                           else ForwardRevocation env json)],
              \<lparr>status = 204, response_body = None\<rparr>)
           \<and> scheduled es = []"
    by (rule fetch_accepted) (use assms in simp_all)
  then show "snd (fetch ?ext request env) = \<lparr>status = 204, response_body = None\<rparr>"
    by auto
next
  from fetch_accepted [OF assms]
  show "\<exists>ts. scheduled (fst (fetch ext request env))
                  = [if headers_get request (RequestHeaders_MessageType ext)
                          = Some NotificationType_Notification
                     then ForwardNotification env json ts
                     else ForwardRevocation env json]"
    by (auto simp add: scheduled_append)
next
  show "snd (run_task ext' t) = Inr ()" by (rule run_task_returns)
next
  show "snd (forwardNotification_try ext' env' body' ts') = Inl e \<longrightarrow>
            fst (forwardNotification ext' env' body' ts')
              = fst (forwardNotification_try ext' env' body' ts') @ [ConsoleError e]"
    by (simp add: forwardNotification_def try_catch_log_logs)
next
  show "snd (forwardRevocation_try ext' env' body') = Inl e \<longrightarrow>
            fst (forwardRevocation ext' env' body')
              = fst (forwardRevocation_try ext' env' body') @ [ConsoleError e]"
    by (simp add: forwardRevocation_def try_catch_log_logs)
qed

theorem fetch_accepted_204_whatever_follows_witness:
  "snd (fetch example_outage
          (example_request ''sha256=valid'' (Some ''notification'') ''1337 is online'')
          example_env)
     = \<lparr>status = 204, response_body = None\<rparr>
   \<and> snd (fetch example_outage
          (example_request ''sha256=valid'' (Some ''revocation'') ''7 was removed'')
          example_env)
     = \<lparr>status = 204, response_body = None\<rparr>
   \<and> scheduled (fst (fetch example_externals
          (example_request ''sha256=valid'' (Some ''revocation'') ''7 was removed'')
          example_env))
     = [ForwardRevocation example_env (example_body ''7'' ''user_removed'')]
   \<and> snd (run_task example_outage
            (ForwardRevocation example_env (example_body ''7'' ''user_removed''))) = Inr ()
   \<and> fst (forwardNotification example_outage example_env
            (example_body ''1337'' ''enabled'') (Some 0))
     = [Authorize ''client'' ''secret'', ConsoleError (Rejected ''token endpoint down'')]
   \<and> fst (forwardRevocation example_outage example_env (example_body ''7'' ''user_removed''))
     = [Authorize ''client'' ''secret'', ConsoleError (Rejected ''token endpoint down'')]"
  using fetch_accepted_204_whatever_follows
    [where ext = example_externals and env = example_env
       and json = "example_body ''1337'' ''enabled''"
       and request = "example_request ''sha256=valid'' (Some ''notification'') ''1337 is online''"
       and tok = "\<lambda>clientId clientSecret. Inl (Rejected ''token endpoint down'')"
       and gs = "\<lambda>clientId token filter. Inl (Rejected ''streams unavailable'')"
       and gc = "\<lambda>clientId token ids. Inl (Rejected ''channels unavailable'')"
       and gu = "\<lambda>clientId token ids. Inl (Rejected ''users unavailable'')"
       and post = "\<lambda>url message. Inr 500"
       and ext' = example_outage
       and t = "ForwardRevocation example_env (example_body ''7'' ''user_removed'')"
       and env' = example_env and body' = "example_body ''1337'' ''enabled''"
       and ts' = "Some 0" and e = "Rejected ''token endpoint down''"]
    fetch_accepted_204_whatever_follows
    [where ext = example_externals and env = example_env
       and json = "example_body ''7'' ''user_removed''"
       and request = "example_request ''sha256=valid'' (Some ''revocation'') ''7 was removed''"
       and tok = "\<lambda>clientId clientSecret. Inl (Rejected ''token endpoint down'')"
       and gs = "\<lambda>clientId token filter. Inl (Rejected ''streams unavailable'')"
       and gc = "\<lambda>clientId token ids. Inl (Rejected ''channels unavailable'')"
       and gu = "\<lambda>clientId token ids. Inl (Rejected ''users unavailable'')"
       and post = "\<lambda>url message. Inr 500"
       and ext' = example_outage
       and t = "ForwardRevocation example_env (example_body ''7'' ''user_removed'')"
       and env' = example_env and body' = "example_body ''7'' ''user_removed''"
       and ts' = "Some 0" and e = "Rejected ''token endpoint down''"]
  by (simp add: example_verifyRequest example_JSON_parse example_parse_def
        example_isStreamOnlineBody example_messageType example_outage_def [symmetric]
        example_outage_revocation_try example_outage_notification_try
        NotificationType_Notification_def NotificationType_Revocation_def)

subsection \<open>The merged view\<close>

lemma mergeStreamInfo_offline:
  "mergeStreamInfo None (Some channel) (Some user) =
     return_io
       \<lparr>userId = broadcaster_id channel,
        userLogin = broadcaster_login channel,
        userName = broadcaster_name channel,
        userAvatarUrl = profile_image_url user,
        gameId = channel_game_id channel,
        gameName = channel_game_name channel,
        info_title = channel_title channel,
        info_delay = delay channel,
        startedAt = None,
        info_language = broadcaster_language channel,
        thumbnailUrl = None\<rparr>"
  by (simp add: mergeStreamInfo_def opt_chain_def bind_io_return)

lemma mergeStreamInfo_live:
  "mergeStreamInfo (Some stream) (Some channel) (Some user) =
     return_io
       \<lparr>userId = user_id stream,
        userLogin = user_login stream,
        userName = user_name stream,
        userAvatarUrl = profile_image_url user,
        gameId = game_id stream,
        gameName = game_name stream,
        info_title = title stream,
        info_delay = delay channel,
        startedAt = (if started_at stream = [] then None else Some (NewDate (started_at stream))),
        info_language = language stream,
        thumbnailUrl = Some (thumbnail_url stream)\<rparr>"
  by (simp add: mergeStreamInfo_def opt_chain_def bind_io_return)

text \<open>Without a user record the object literal throws, whatever the other two are.\<close>

lemma mergeStreamInfo_no_user:
  "snd (mergeStreamInfo stream channel None) = Inl TypeError"
  by (cases stream; cases channel)
     (simp_all add: mergeStreamInfo_def opt_chain_def return_io_def throw_io_def
        bind_io_Inr bind_io_Inl)

lemma fetchEventSubStreamInfo_resolved:
  assumes "access_token ext (TWITCH_CLIENT_ID env) (TWITCH_CLIENT_SECRET env) = Inr token"
    and "getStreams ext (TWITCH_CLIENT_ID env) token
           \<lparr>filter_type = StreamFilterType_Live ext,
            filter_userIds = [broadcaster_user_id body]\<rparr> = Inr streams"
    and "getChannels ext (TWITCH_CLIENT_ID env) token [broadcaster_user_id body] = Inr channels"
    and "getUsers ext (TWITCH_CLIENT_ID env) token [broadcaster_user_id body] = Inr users"
  shows "snd (fetchEventSubStreamInfo ext env body)
           = snd (mergeStreamInfo (first streams) (first channels) (first users))"
  using assms
  by (simp add: fetchEventSubStreamInfo_def authorize_def bind_io_call_Inr promise_all3_def
        call_io_def Let_def bind_io_Inr)

text \<open>
  C3. With a token, a channel record and a user record: when the stream lookup returns
  no stream, the merged view has no \<open>startedAt\<close> and no \<open>thumbnailUrl\<close>, its delay is the
  channel's, its avatar is the user's and every other field is the channel's; when it
  returns a stream, each of these other fields is the stream's.
\<close>

theorem fetchEventSubStreamInfo_merge:
  assumes "access_token ext (TWITCH_CLIENT_ID env) (TWITCH_CLIENT_SECRET env) = Inr token"
    and "getStreams ext (TWITCH_CLIENT_ID env) token
           \<lparr>filter_type = StreamFilterType_Live ext,
            filter_userIds = [broadcaster_user_id body]\<rparr> = Inr streams"
    and "getChannels ext (TWITCH_CLIENT_ID env) token [broadcaster_user_id body]
           = Inr (channel # channels)"
    and "getUsers ext (TWITCH_CLIENT_ID env) token [broadcaster_user_id body]
           = Inr (user # users)"
  shows "(streams = [] \<longrightarrow>
            snd (fetchEventSubStreamInfo ext env body) =
              Inr \<lparr>userId = broadcaster_id channel,
                   userLogin = broadcaster_login channel,
                   userName = broadcaster_name channel,
                   userAvatarUrl = profile_image_url user,
                   gameId = channel_game_id channel,
                   gameName = channel_game_name channel,
                   info_title = channel_title channel,
                   info_delay = delay channel,
                   startedAt = None,
                   info_language = broadcaster_language channel,
                   thumbnailUrl = None\<rparr>)
       \<and> (\<forall>stream rest. streams = stream # rest \<longrightarrow>
            snd (fetchEventSubStreamInfo ext env body) =
              Inr \<lparr>userId = user_id stream,
                   userLogin = user_login stream,
                   userName = user_name stream,
                   userAvatarUrl = profile_image_url user,
                   gameId = game_id stream,
                   gameName = game_name stream,
                   info_title = title stream,
                   info_delay = delay channel,
                   startedAt = (if started_at stream = [] then None
                                else Some (NewDate (started_at stream))),
                   info_language = language stream,
                   thumbnailUrl = Some (thumbnail_url stream)\<rparr>)"
  using fetchEventSubStreamInfo_resolved [OF assms]
  by (simp add: mergeStreamInfo_offline mergeStreamInfo_live return_io_def)

theorem fetchEventSubStreamInfo_merge_witness:
  "snd (fetchEventSubStreamInfo example_externals example_env (example_body ''7'' ''enabled''))
     = Inr \<lparr>userId = ''7'', userLogin = ''channel7'', userName = ''Channel7'',
            userAvatarUrl = ''https://example.com/avatar.png'',
            gameId = ''33214'', gameName = ''Fortnite'', info_title = ''Last broadcast'',
            info_delay = 30, startedAt = None, info_language = ''de'', thumbnailUrl = None\<rparr>
   \<and> snd (fetchEventSubStreamInfo example_externals example_env
            (example_body ''1337'' ''enabled''))
     = Inr \<lparr>userId = ''1337'', userLogin = ''streamer'', userName = ''Streamer'',
            userAvatarUrl = ''https://example.com/avatar.png'',
            gameId = ''509658'', gameName = ''Just Chatting'', info_title = ''Live now'',
            info_delay = 30, startedAt = Some (NewDate ''2023-01-01T12:00:00Z''),
            info_language = ''en'', thumbnailUrl = Some ''https://example.com/live.jpg''\<rparr>"
  using fetchEventSubStreamInfo_merge
    [where ext = example_externals and env = example_env
       and body = "example_body ''7'' ''enabled''" and token = "''token''"
       and streams = "[]" and channel = "example_channel ''7''" and channels = "[]"
       and user = example_user and users = "[]"]
    fetchEventSubStreamInfo_merge
    [where ext = example_externals and env = example_env
       and body = "example_body ''1337'' ''enabled''" and token = "''token''"
       and streams = "[example_stream]" and channel = "example_channel ''1337''"
       and channels = "[]" and user = example_user and users = "[]"]
  by (simp add: example_externals_def example_env_def example_body_def example_channel_def
        example_stream_def example_user_def)

text \<open>
  C6, as the claim states it, fails: broadcaster \<open>8\<close> has a channel record and no user
  record, the stream and channel lookups succeed, and the aggregation throws.
\<close>

theorem fetchEventSubStreamInfo_user_not_optional:
  "getStreams example_externals ''client'' ''token''
      \<lparr>filter_type = ''live'', filter_userIds = [''8'']\<rparr> = Inr []
   \<and> getChannels example_externals ''client'' ''token'' [''8''] = Inr [example_channel ''8'']
   \<and> getUsers example_externals ''client'' ''token'' [''8''] = Inr []
   \<and> snd (fetchEventSubStreamInfo example_externals example_env (example_body ''8'' ''enabled''))
        = Inl TypeError"
  by (simp add: fetchEventSubStreamInfo_def authorize_def promise_all3_def mergeStreamInfo_def
        opt_chain_def call_io_def bind_io_def return_io_def throw_io_def Let_def
        example_externals_def example_env_def example_body_def)

text \<open>
  C6, amended. When the stream and channel lookups succeed and the user lookup fails,
  the aggregation fails as a whole: with the rejection \<open>e\<close> of the user lookup when it
  rejects, and with a \<open>TypeError\<close> when it returns an empty collection.
\<close>

theorem fetchEventSubStreamInfo_fails_without_user:
  assumes "access_token ext (TWITCH_CLIENT_ID env) (TWITCH_CLIENT_SECRET env) = Inr token"
    and "getStreams ext (TWITCH_CLIENT_ID env) token
           \<lparr>filter_type = StreamFilterType_Live ext,
            filter_userIds = [broadcaster_user_id body]\<rparr> = Inr streams"
    and "getChannels ext (TWITCH_CLIENT_ID env) token [broadcaster_user_id body] = Inr channels"
  shows "(getUsers ext (TWITCH_CLIENT_ID env) token [broadcaster_user_id body] = Inl e \<longrightarrow>
            snd (fetchEventSubStreamInfo ext env body) = Inl e)
       \<and> (getUsers ext (TWITCH_CLIENT_ID env) token [broadcaster_user_id body] = Inr [] \<longrightarrow>
            snd (fetchEventSubStreamInfo ext env body) = Inl TypeError)"
proof (intro conjI impI)
  assume "getUsers ext (TWITCH_CLIENT_ID env) token [broadcaster_user_id body] = Inl e"
  with assms show "snd (fetchEventSubStreamInfo ext env body) = Inl e"
    by (simp add: fetchEventSubStreamInfo_def authorize_def bind_io_call_Inr promise_all3_def
          call_io_def Let_def bind_io_Inl bind_io_Inr)
next
  assume "getUsers ext (TWITCH_CLIENT_ID env) token [broadcaster_user_id body] = Inr []"
  from fetchEventSubStreamInfo_resolved [OF assms this]
  show "snd (fetchEventSubStreamInfo ext env body) = Inl TypeError"
    by (simp add: mergeStreamInfo_no_user)
qed

theorem fetchEventSubStreamInfo_fails_without_user_witness:
  "snd (fetchEventSubStreamInfo example_externals example_env (example_body ''9'' ''enabled''))
     = Inl (Rejected ''users unavailable'')
   \<and> snd (fetchEventSubStreamInfo example_externals example_env
            (example_body ''8'' ''enabled''))
     = Inl TypeError"
  using fetchEventSubStreamInfo_fails_without_user
    [where ext = example_externals and env = example_env
       and body = "example_body ''9'' ''enabled''" and token = "''token''"
       and streams = "[]" and channels = "[example_channel ''9'']"
       and e = "Rejected ''users unavailable''"]
    fetchEventSubStreamInfo_fails_without_user
    [where ext = example_externals and env = example_env
       and body = "example_body ''8'' ''enabled''" and token = "''token''"
       and streams = "[]" and channels = "[example_channel ''8'']"
       and e = "Rejected ''users unavailable''"]
  by (simp add: example_externals_def example_env_def example_body_def)

subsection \<open>The message of a revocation\<close>

text \<open>\<open>replace\<close> changes the first underscore and leaves what follows it as it is.\<close>

lemma replace_first_underscore:
  "CHR ''_'' \<notin> set s \<Longrightarrow> replace_first ''_'' '' '' (s @ CHR ''_'' # t) = s @ CHR '' '' # t"
  by (induction s) auto

lemma replace_first_no_underscore:
  "CHR ''_'' \<notin> set s \<Longrightarrow> replace_first ''_'' '' '' s = s"
  by (induction s) auto

text \<open>
  When the token, the channel and the webhook target are there, the \<open>try\<close> block of
  \<open>forwardRevocation\<close> acquires the token, looks the channel up and posts one message,
  which names the channel and the status as \<open>replace\<close> left it.
\<close>

lemma forwardRevocation_try_events:
  assumes "access_token ext (TWITCH_CLIENT_ID env) (TWITCH_CLIENT_SECRET env) = Inr token"
    and "getChannels ext (TWITCH_CLIENT_ID env) token [broadcaster_user_id body]
           = Inr (channel # channels)"
    and "resolveWebhookOptions (resolveWebhookEnvs env) = Some webhook"
  shows "fst (forwardRevocation_try ext env body)
           = [Authorize (TWITCH_CLIENT_ID env) (TWITCH_CLIENT_SECRET env),
              GetChannels (TWITCH_CLIENT_ID env) token [broadcaster_user_id body],
              HttpPost (webhookUrl webhook)
                \<lparr>username = DISCORD_USERNAME env,
                 avatar_url = DISCORD_AVATAR_URL env,
                 content = Some (''Subscription to channel **'' @ broadcaster_name channel
                                 @ ''** revoked: ''
                                 @ replace_first ''_'' '' '' (subscription_status body)),
                 embeds = None\<rparr>]"
  using assms
  by (cases "http_fetch ext (webhookUrl webhook)
                \<lparr>username = DISCORD_USERNAME env,
                 avatar_url = DISCORD_AVATAR_URL env,
                 content = Some (''Subscription to channel **'' @ broadcaster_name channel
                                 @ ''** revoked: ''
                                 @ replace_first ''_'' '' '' (subscription_status body)),
                 embeds = None\<rparr>")
     (simp_all add: forwardRevocation_try_def authorize_def bind_io_call_Inr call_io_def
        bind_io_Inr bind_io_Inl return_io_def throw_io_def Let_def executeWebhook_def)

lemma get_prop_unfold:
  "get_prop obj f = (case obj of None \<Rightarrow> ([], Inl TypeError) | Some x \<Rightarrow> ([], Inr (f x)))"
  by (cases obj) (simp_all add: throw_io_def return_io_def)

text \<open>The revocation path never looks a stream or a user up.\<close>

lemma forwardRevocation_lookups:
  "filter stream_or_user_lookup (fst (forwardRevocation ext env body)) = []"
proof -
  have "filter stream_or_user_lookup (fst (forwardRevocation_try ext env body)) = []"
    by (auto simp add: forwardRevocation_try_def authorize_def call_io_def bind_io_def
          return_io_def throw_io_def Let_def executeWebhook_def get_prop_unfold
          split: sum.splits list.splits option.splits prod.splits)
  then show ?thesis
    by (cases "forwardRevocation_try ext env body")
       (auto simp add: forwardRevocation_def try_catch_log_def split: sum.splits)
qed

text \<open>
  C9. The status \<open>notification_failures_exceeded\<close> has two underscores. The message
  that \<open>forwardRevocation\<close> posts for it keeps the second one: \<open>replace\<close> with a string
  pattern replaces the first occurrence only.
\<close>

theorem forwardRevocation_keeps_second_underscore:
  "fst (forwardRevocation example_externals example_env
          (example_body ''7'' ''notification_failures_exceeded''))
     = [Authorize ''client'' ''secret'',
        GetChannels ''client'' ''token'' [''7''],
        HttpPost (webhookUrl \<lparr>data_id = ''123456789012345678'', data_token = example_token\<rparr>)
          \<lparr>username = None, avatar_url = None,
           content = Some
             ''Subscription to channel **Channel7** revoked: notification failures_exceeded'',
           embeds = None\<rparr>]"
  by (simp add: forwardRevocation_def try_catch_log_def forwardRevocation_try_def authorize_def
        executeWebhook_def resolveWebhookOptions_def resolveWebhookEnvs_def call_io_def
        bind_io_def return_io_def throw_io_def Let_def example_externals_def example_env_def
        example_body_def example_channel_def example_token_def)

subsection \<open>Resolution of the webhook target\<close>

text \<open>
  Every match of \<open>WebhookUrlPattern\<close> captures exactly the two groups, within the bounds
  and the classes of the pattern.
\<close>

lemma rmatch_no_groups:
  "no_groups r \<Longrightarrow> (rest, caps) \<in> set (rmatch r (s, c)) \<Longrightarrow> caps = c"
proof (induction r arbitrary: s c rest caps)
  case (Lit p)
  then show ?case by (auto split: option.splits)
next
  case (Rep cls lo hi)
  then show ?case by (auto simp add: Let_def)
next
  case (Opt r)
  then show ?case by auto
next
  case (Alt r1 r2)
  then show ?case by auto
next
  case (Seq r1 r2)
  from Seq.prems obtain s1 c1 where a: "(s1, c1) \<in> set (rmatch r1 (s, c))"
    and b: "(rest, caps) \<in> set (rmatch r2 (s1, c1))"
    by auto
  from Seq.prems(1) a have "c1 = c" using Seq.IH(1) by simp
  with Seq.prems(1) b show ?case using Seq.IH(2) by simp
next
  case (Grp name r)
  then show ?case by simp
qed

lemma rmatch_Seq_no_groups:
  assumes "no_groups r1" and "(rest, caps) \<in> set (rmatch (Seq r1 r2) (s, c))"
  shows "\<exists>s1. (rest, caps) \<in> set (rmatch r2 (s1, c))"
proof -
  from assms(2) obtain s1 c1 where a: "(s1, c1) \<in> set (rmatch r1 (s, c))"
    and b: "(rest, caps) \<in> set (rmatch r2 (s1, c1))"
    by auto
  from assms(1) a have "c1 = c" by (rule rmatch_no_groups)
  with b show ?thesis by blast
qed

lemma take_in_class:
  assumes "k \<le> length (takeWhile (\<lambda>x. x \<in> set cls) s)"
  shows "set (take k s) \<subseteq> set cls \<and> length (take k s) = k"
proof -
  have "take k s = take k (takeWhile (\<lambda>x. x \<in> set cls) s)"
    using assms by (metis min.absorb1 take_take takeWhile_eq_take)
  then have "set (take k s) \<subseteq> set (takeWhile (\<lambda>x. x \<in> set cls) s)"
    by (metis set_take_subset)
  moreover have "set (takeWhile (\<lambda>x. x \<in> set cls) s) \<subseteq> set cls"
    by (auto dest: set_takeWhileD)
  moreover have "length (takeWhile (\<lambda>x. x \<in> set cls) s) \<le> length s"
    by (rule length_takeWhile_le)
  ultimately show ?thesis using assms by auto
qed

lemma rmatch_Rep_elim:
  assumes "(rest, caps) \<in> set (rmatch (Rep cls lo hi) (s, c))"
  shows "\<exists>k. lo \<le> k \<and> k \<le> hi \<and> k \<le> length (takeWhile (\<lambda>x. x \<in> set cls) s)
           \<and> rest = drop k s \<and> caps = c"
proof -
  from assms obtain k where "k \<in> set [lo ..< Suc (min hi (length (takeWhile (\<lambda>x. x \<in> set cls) s)))]"
    and "rest = drop k s" and "caps = c"
    by (auto simp add: Let_def simp del: upt_Suc)
  then show ?thesis by (auto simp del: upt_Suc)
qed

lemma rmatch_Seq_elim:
  assumes "(rest, caps) \<in> set (rmatch (Seq r1 r2) st)"
  shows "\<exists>st1 \<in> set (rmatch r1 st). (rest, caps) \<in> set (rmatch r2 st1)"
  using assms by auto

lemma rmatch_Grp_elim:
  assumes "(rest, caps) \<in> set (rmatch (Grp name r) (s, c))"
  shows "\<exists>caps'. (rest, caps') \<in> set (rmatch r (s, c))
           \<and> caps = caps' @ [(name, take (length s - length rest) s)]"
  using assms by auto

lemma rmatch_Grp_Rep:
  assumes "(rest, caps) \<in> set (rmatch (Grp name (Rep cls lo hi)) (s, c))"
  shows "\<exists>g. caps = c @ [(name, g)] \<and> lo \<le> length g \<and> length g \<le> hi \<and> set g \<subseteq> set cls"
proof -
  from rmatch_Grp_elim [OF assms] obtain caps' where
    a: "(rest, caps') \<in> set (rmatch (Rep cls lo hi) (s, c))"
    and b: "caps = caps' @ [(name, take (length s - length rest) s)]"
    by blast
  from rmatch_Rep_elim [OF a] obtain k where k: "lo \<le> k" "k \<le> hi"
      "k \<le> length (takeWhile (\<lambda>x. x \<in> set cls) s)"
    and r: "rest = drop k s" and c: "caps' = c"
    by blast
  have "length (takeWhile (\<lambda>x. x \<in> set cls) s) \<le> length s"
    by (rule length_takeWhile_le)
  with k(3) r have "length s - length rest = k" by simp
  with b c have caps: "caps = c @ [(name, take k s)]" by simp
  from take_in_class [OF k(3)]
  have "set (take k s) \<subseteq> set cls" and "length (take k s) = k" by simp_all
  with caps k(1,2) show ?thesis by (intro exI [of _ "take k s"]) simp
qed

lemma rmatch_Seq_Grp_Rep:
  assumes "(rest, caps) \<in> set (rmatch (Seq (Grp name (Rep cls lo hi)) r2) (s, c))"
  shows "\<exists>s1 g. (rest, caps) \<in> set (rmatch r2 (s1, c @ [(name, g)]))
           \<and> lo \<le> length g \<and> length g \<le> hi \<and> set g \<subseteq> set cls"
proof -
  from rmatch_Seq_elim [OF assms] obtain s1 c1 where
    a: "(s1, c1) \<in> set (rmatch (Grp name (Rep cls lo hi)) (s, c))"
    and b: "(rest, caps) \<in> set (rmatch r2 (s1, c1))"
    by (metis surj_pair)
  from rmatch_Grp_Rep [OF a] obtain g where "c1 = c @ [(name, g)]"
    and "lo \<le> length g" and "length g \<le> hi" and "set g \<subseteq> set cls"
    by (elim exE conjE)
  with b show ?thesis by (intro exI [of _ s1] exI [of _ g]) simp
qed

lemma WebhookUrlPattern_captures:
  assumes "(rest, caps) \<in> set (rmatch WebhookUrlPattern (s, []))"
  shows "\<exists>i t. caps = [(''id'', i), (''token'', t)]
           \<and> 17 \<le> length i \<and> length i \<le> 19 \<and> set i \<subseteq> set digit_class
           \<and> length t = 68 \<and> set t \<subseteq> set word_dash_class"
  using assms unfolding WebhookUrlPattern_def
  apply -
  apply (drule rmatch_Seq_no_groups [rotated], simp, erule exE)
  apply (drule rmatch_Seq_no_groups [rotated], simp, erule exE)
  apply (drule rmatch_Seq_no_groups [rotated], simp, erule exE)
  apply (drule rmatch_Seq_no_groups [rotated], simp, erule exE)
  apply (drule rmatch_Seq_no_groups [rotated], simp, erule exE)
  apply (drule rmatch_Seq_no_groups [rotated], simp, erule exE)
  apply (drule rmatch_Seq_no_groups [rotated], simp, erule exE)
  apply (drule rmatch_Seq_Grp_Rep, elim exE conjE)
  apply (drule rmatch_Seq_no_groups [rotated], simp, erule exE)
  apply (drule rmatch_Grp_Rep, elim exE conjE)
  apply simp
  done

lemma regex_exec_match:
  "regex_exec r s = Some caps \<Longrightarrow> \<exists>s' rest. (rest, caps) \<in> set (rmatch r (s', []))"
proof (induction s)
  case Nil
  then obtain rest ms where "rmatch r ([], []) = (rest, caps) # ms"
    by (auto split: list.splits)
  then have "(rest, caps) \<in> set (rmatch r ([], []))" by simp
  then show ?case by blast
next
  case (Cons c cs)
  show ?case
  proof (cases "rmatch r (c # cs, [])")
    case Nil
    with Cons show ?thesis by simp
  next
    case (Cons m ms)
    with Cons.prems have "(fst m, caps) \<in> set (rmatch r (c # cs, []))"
      by (cases m) auto
    then show ?thesis by blast
  qed
qed

text \<open>
  A target that \<open>resolveWebhookOptions\<close> reads from the URL is an id of 17 to 19 digits
  and a token of 68 characters of the class \<open>[\w-]\<close>.
\<close>

lemma resolveWebhookOptions_from_url:
  assumes "\<not> (truthy (opt_id opts) \<and> truthy (opt_token opts))"
    and "resolveWebhookOptions opts = Some webhook"
  shows "17 \<le> length (data_id webhook) \<and> length (data_id webhook) \<le> 19
         \<and> set (data_id webhook) \<subseteq> set digit_class
         \<and> length (data_token webhook) = 68
         \<and> set (data_token webhook) \<subseteq> set word_dash_class"
proof -
  from assms obtain groups where
    g: "regex_exec WebhookUrlPattern (nullish (opt_url opts) []) = Some groups"
    and w: "webhook = \<lparr>data_id = the (map_of groups ''id''),
                       data_token = the (map_of groups ''token'')\<rparr>"
    by (auto simp add: resolveWebhookOptions_def split: option.splits)
  from regex_exec_match [OF g] obtain s' rest where
    "(rest, groups) \<in> set (rmatch WebhookUrlPattern (s', []))"
    by (elim exE)
  from WebhookUrlPattern_captures [OF this] obtain i t where
    "groups = [(''id'', i), (''token'', t)]"
    and "17 \<le> length i" and "length i \<le> 19" and "set i \<subseteq> set digit_class"
    and "length t = 68" and "set t \<subseteq> set word_dash_class"
    by (elim exE conjE)
  with w show ?thesis by simp
qed


lemma example_webhook_url_match:
  "regex_exec WebhookUrlPattern example_webhook_url
     = Some [(''id'', ''876543210987654321''), (''token'', example_token)]"
  by (simp add: WebhookUrlPattern_def example_webhook_url_def example_token_def
        digit_class_def word_dash_class_def to_lower_def)

lemma example_other_url_no_match:
  "regex_exec WebhookUrlPattern example_other_url = None"
  by (simp add: WebhookUrlPattern_def example_other_url_def digit_class_def
        word_dash_class_def to_lower_def)

text \<open>
  C10. In \<open>resolveWebhookOptions\<close> an explicit pair wins over the URL: when \<open>id\<close> and
  \<open>token\<close> are both non-empty the result is exactly that pair, whatever the \<open>url\<close> field
  \<open>u\<close> holds. When \<open>id\<close> or \<open>token\<close> is missing or empty the result is what the
  pattern finds in the URL (the empty string when there is none). When neither gives a
  target, \<open>executeWebhook\<close> throws the \<open>WebhookError\<close> and has performed no event: no
  HTTP request was issued.
\<close>

theorem resolveWebhookOptions_pair_before_url:
  "(i \<noteq> [] \<and> t \<noteq> [] \<longrightarrow>
      resolveWebhookOptions \<lparr>opt_id = Some i, opt_token = Some t, opt_url = u\<rparr>
        = Some \<lparr>data_id = i, data_token = t\<rparr>)
   \<and> (\<not> (truthy (opt_id opts) \<and> truthy (opt_token opts)) \<longrightarrow>
      resolveWebhookOptions opts
        = map_option
            (\<lambda>groups. \<lparr>data_id = the (map_of groups ''id''),
                       data_token = the (map_of groups ''token'')\<rparr>)
            (regex_exec WebhookUrlPattern (nullish (opt_url opts) [])))
   \<and> (\<not> (truthy (opt_id opts') \<and> truthy (opt_token opts'))
        \<and> regex_exec WebhookUrlPattern (nullish (opt_url opts') []) = None \<longrightarrow>
      executeWebhook ext opts' message
        = ([], Inl (WebhookError ''Failed to resolve webhook ID and token'')))"
  by (simp add: resolveWebhookOptions_def executeWebhook_def throw_io_def split: option.splits)

theorem resolveWebhookOptions_pair_before_url_witness:
  "resolveWebhookOptions
      \<lparr>opt_id = Some ''123456789012345678'', opt_token = Some ''t0ken'',
       opt_url = Some example_other_url\<rparr>
     = Some \<lparr>data_id = ''123456789012345678'', data_token = ''t0ken''\<rparr>
   \<and> resolveWebhookOptions
      \<lparr>opt_id = None, opt_token = Some ''t0ken'', opt_url = Some example_webhook_url\<rparr>
     = Some \<lparr>data_id = ''876543210987654321'', data_token = example_token\<rparr>
   \<and> executeWebhook example_externals
      \<lparr>opt_id = Some '''', opt_token = Some ''t0ken'', opt_url = Some example_other_url\<rparr>
      example_message
     = ([], Inl (WebhookError ''Failed to resolve webhook ID and token''))"
  using resolveWebhookOptions_pair_before_url
      [of "''123456789012345678''" "''t0ken''" "Some example_other_url"
          "\<lparr>opt_id = None, opt_token = Some ''t0ken'', opt_url = Some example_webhook_url\<rparr>"
          "\<lparr>opt_id = Some '''', opt_token = Some ''t0ken'', opt_url = Some example_other_url\<rparr>"
          example_externals example_message]
  by (simp add: example_webhook_url_match example_other_url_no_match)

end
